theory Spec2Isabelle
  imports Complex_Main
begin

section \<open>JSON values as Python sees them\<close>

text \<open>
  The program handles the values that \<^verbatim>\<open>json.loads\<close> produces: \<^verbatim>\<open>None\<close>, booleans,
  integers, floats, strings, lists and string-keyed dicts. A dict is kept as an association
  list in insertion order; \<^verbatim>\<open>json.loads\<close> and dict literals give distinct keys.
  A float is carried around, never computed with: a finite double is a real number, and
  the three special values are constructors of their own.
\<close>

datatype pyfloat = Finite real | PosInf | NegInf | NaN

datatype json =
    JNull
  | JBool bool
  | JInt int
  | JFloat pyfloat
  | JStr string
  | JList "json list"
  | JDict "(string \<times> json) list"

type_synonym pydict = "(string \<times> json) list"

text \<open>The exceptions of the program: Python's own (\<open>OtherException\<close> carries the class
  name of one that has no constructor here), the errors the specification names for the
  log and the engine, and \<^verbatim>\<open>ProviderError\<close> of providers.py with its message.\<close>

datatype error =
    AttributeError
  | KeyError
  | TypeError
  | IndexError
  | ValueError
  | UnicodeDecodeError
  | OtherException string
  | CorruptLog
  | UnrecognizedOperation
  | InvalidArgument
  | ProviderError string

text \<open>Truth value testing (\<^verbatim>\<open>bool(x)\<close>, \<^verbatim>\<open>x or y\<close>, \<^verbatim>\<open>if x\<close>, \<^verbatim>\<open>not x\<close>).\<close>

fun truthy :: "json \<Rightarrow> bool" where
  "truthy JNull = False"
| "truthy (JBool b) = b"
| "truthy (JInt i) = (i \<noteq> 0)"
| "truthy (JFloat f) = (case f of Finite r \<Rightarrow> r \<noteq> 0 | _ \<Rightarrow> True)"
| "truthy (JStr s) = (s \<noteq> [])"
| "truthy (JList xs) = (xs \<noteq> [])"
| "truthy (JDict d) = (d \<noteq> [])"

definition py_or :: "json \<Rightarrow> json \<Rightarrow> json" where
  "py_or a b = (if truthy a then a else b)"

text \<open>\<^verbatim>\<open>d.get(k, default)\<close> and \<^verbatim>\<open>d.get(k)\<close> on a dict.\<close>

definition py_get_default :: "pydict \<Rightarrow> string \<Rightarrow> json \<Rightarrow> json" where
  "py_get_default d k dflt = (case map_of d k of None \<Rightarrow> dflt | Some v \<Rightarrow> v)"

definition py_get :: "pydict \<Rightarrow> string \<Rightarrow> json" where
  "py_get d k = py_get_default d k JNull"

text \<open>\<^verbatim>\<open>x.get(k)\<close> on any value: only a dict has the method.\<close>

fun attr_get :: "json \<Rightarrow> string \<Rightarrow> error + json" where
  "attr_get (JDict d) k = Inr (py_get d k)"
| "attr_get _ k = Inl AttributeError"

text \<open>\<^verbatim>\<open>isinstance(x, dict)\<close>.\<close>

fun is_dict :: "json \<Rightarrow> bool" where
  "is_dict (JDict d) = True"
| "is_dict _ = False"

section \<open>The state projection\<close>

text \<open>
  Modelled from the spec: \<^verbatim>\<open>KuhulState\<close> (state.py is not among the sources). The spec gives
  it an ordered list of components and a theme name that defaults to a fixed value; the
  default is a parameter here.
\<close>

record KuhulState =
  components :: "json list"
  theme :: string

definition KuhulState_init :: "string \<Rightarrow> KuhulState" where
  "KuhulState_init default_theme = \<lparr>components = [], theme = default_theme\<rparr>"

section \<open>The replay fold (cli.py, replay subcommand)\<close>

text \<open>
  The body of the loop over the events, for one event \<open>e\<close>:
  \<^verbatim>\<open>
  if e.get("topic") != "state.changed": continue
  data = e.get("data", {}) or {}
  kind = data.get("kind")
  if kind == "component.created":
      comp = data.get("component")
      if isinstance(comp, dict): st.components.append(comp)
  elif kind == "theme.changed":
      to = data.get("to")
      if to in ("dark", "light"): st.theme = to
  \<close>
  An event is a dict, as the annotation of \<^verbatim>\<open>load_events\<close> says. \<^verbatim>\<open>data.get\<close> raises
  AttributeError when \<open>data\<close> is a truthy value that is not a dict. The result is the
  state after the body, or the exception that ends the loop.
\<close>

definition replay_step :: "KuhulState \<Rightarrow> pydict \<Rightarrow> error + KuhulState" where
  "replay_step st e =
     (if py_get e ''topic'' \<noteq> JStr ''state.changed'' then Inr st
      else
        let data = py_or (py_get_default e ''data'' (JDict [])) (JDict []) in
        case attr_get data ''kind'' of
          Inl err \<Rightarrow> Inl err
        | Inr kind \<Rightarrow>
            if kind = JStr ''component.created'' then
              (case attr_get data ''component'' of
                 Inl err \<Rightarrow> Inl err
               | Inr cmp \<Rightarrow>
                   if is_dict cmp then Inr (st\<lparr>components := components st @ [cmp]\<rparr>)
                   else Inr st)
            else if kind = JStr ''theme.changed'' then
              (case attr_get data ''to'' of
                 Inl err \<Rightarrow> Inl err
               | Inr to \<Rightarrow>
                   (case to of
                      JStr s \<Rightarrow>
                        if s = ''dark'' \<or> s = ''light'' then Inr (st\<lparr>theme := s\<rparr>)
                        else Inr st
                    | _ \<Rightarrow> Inr st))
            else Inr st)"

fun replay_fold :: "KuhulState \<Rightarrow> pydict list \<Rightarrow> error + KuhulState" where
  "replay_fold st [] = Inr st"
| "replay_fold st (e # es) =
     (case replay_step st e of
        Inl err \<Rightarrow> Inl err
      | Inr st' \<Rightarrow> replay_fold st' es)"

subsection \<open>The replay contract in the words of the specification\<close>

text \<open>
  The specification reads an event through its fields \<open>topic\<close>, \<open>data.kind\<close>,
  \<open>data.component\<close> and \<open>data.to\<close>; a field of \<open>data\<close> exists when \<open>data\<close> is a mapping
  that has it.
\<close>

definition data_field :: "pydict \<Rightarrow> string \<Rightarrow> json option" where
  "data_field e k = (case map_of e ''data'' of Some (JDict d) \<Rightarrow> map_of d k | _ \<Rightarrow> None)"

text \<open>As the specification states it: the component of a creation event is appended verbatim.\<close>

definition spec_step :: "KuhulState \<Rightarrow> pydict \<Rightarrow> KuhulState" where
  "spec_step st e =
     (if map_of e ''topic'' = Some (JStr ''state.changed'') then
        (if data_field e ''kind'' = Some (JStr ''component.created'') then
           (case data_field e ''component'' of
              Some c \<Rightarrow> st\<lparr>components := components st @ [c]\<rparr>
            | None \<Rightarrow> st)
         else if data_field e ''kind'' = Some (JStr ''theme.changed'') then
           (if data_field e ''to'' = Some (JStr ''dark'') then st\<lparr>theme := ''dark''\<rparr>
            else if data_field e ''to'' = Some (JStr ''light'') then st\<lparr>theme := ''light''\<rparr>
            else st)
         else st)
      else st)"

definition spec_replay :: "string \<Rightarrow> pydict list \<Rightarrow> KuhulState" where
  "spec_replay default_theme es = foldl spec_step (KuhulState_init default_theme) es"

text \<open>The same contract with one change: a component is appended only when it is a JSON
  object.\<close>

definition spec_step_amended :: "KuhulState \<Rightarrow> pydict \<Rightarrow> KuhulState" where
  "spec_step_amended st e =
     (if map_of e ''topic'' = Some (JStr ''state.changed'') then
        (if data_field e ''kind'' = Some (JStr ''component.created'') then
           (case data_field e ''component'' of
              Some (JDict c) \<Rightarrow> st\<lparr>components := components st @ [JDict c]\<rparr>
            | _ \<Rightarrow> st)
         else if data_field e ''kind'' = Some (JStr ''theme.changed'') then
           (if data_field e ''to'' = Some (JStr ''dark'') then st\<lparr>theme := ''dark''\<rparr>
            else if data_field e ''to'' = Some (JStr ''light'') then st\<lparr>theme := ''light''\<rparr>
            else st)
         else st)
      else st)"

definition spec_replay_amended :: "string \<Rightarrow> pydict list \<Rightarrow> KuhulState" where
  "spec_replay_amended default_theme es =
     foldl spec_step_amended (KuhulState_init default_theme) es"

text \<open>The \<open>data\<close> of an event is a mapping, or absent, or a value Python takes for false
  (which the loop body replaces by the empty mapping).\<close>

definition data_is_mapping :: "pydict \<Rightarrow> bool" where
  "data_is_mapping e =
     (case map_of e ''data'' of
        None \<Rightarrow> True
      | Some (JDict d) \<Rightarrow> True
      | Some v \<Rightarrow> \<not> truthy v)"

definition is_state_changed :: "pydict \<Rightarrow> bool" where
  "is_state_changed e = (py_get e ''topic'' = JStr ''state.changed'')"

text \<open>Events of scenario 3 of the specification, in the shape the specification gives to
  events and component records.\<close>

definition button_component :: json where
  "button_component =
     JDict [(''id'', JStr ''cmp_1''), (''type'', JStr ''button''),
            (''props'', JDict [(''text'', JStr ''OK'')])]"

definition card_component :: json where
  "card_component =
     JDict [(''id'', JStr ''cmp_2''), (''type'', JStr ''card''),
            (''props'', JDict [(''label'', JStr ''Hello'')])]"

definition component_created :: "string \<Rightarrow> json \<Rightarrow> pydict" where
  "component_created ident c =
     [(''id'', JStr ident), (''ts_ms'', JInt 1700000000000), (''caused_by'', JStr ''cmd_1''),
      (''topic'', JStr ''state.changed''),
      (''data'', JDict [(''kind'', JStr ''component.created''), (''component'', c)])]"

definition theme_changed :: "string \<Rightarrow> json \<Rightarrow> pydict" where
  "theme_changed ident t =
     [(''id'', JStr ident), (''ts_ms'', JInt 1700000000001), (''caused_by'', JStr ''cmd_2''),
      (''topic'', JStr ''state.changed''),
      (''data'', JDict [(''kind'', JStr ''theme.changed''), (''to'', t)])]"

definition scenario3_events :: "pydict list" where
  "scenario3_events =
     [component_created ''evt_1'' button_component,
      theme_changed ''evt_2'' (JStr ''dark''),
      component_created ''evt_3'' card_component]"

section \<open>The chat provider client (providers.py)\<close>

record ProviderConfig =
  name :: string
  base_url :: string
  api_key_env :: "string option"
  kind :: string

definition PROVIDERS :: "(string \<times> ProviderConfig) list" where
  "PROVIDERS =
     [(''openai'', \<lparr>name = ''openai'', base_url = ''https://api.openai.com/v1'',
         api_key_env = Some ''OPENAI_API_KEY'', kind = ''openai''\<rparr>),
      (''mistral'', \<lparr>name = ''mistral'', base_url = ''https://api.mistral.ai/v1'',
         api_key_env = Some ''MISTRAL_API_KEY'', kind = ''openai''\<rparr>),
      (''deepseek'', \<lparr>name = ''deepseek'', base_url = ''https://api.deepseek.com/v1'',
         api_key_env = Some ''DEEPSEEK_API_KEY'', kind = ''openai''\<rparr>),
      (''codestral'', \<lparr>name = ''codestral'', base_url = ''https://codestral.mistral.ai/v1'',
         api_key_env = Some ''CODESTRAL_API_KEY'', kind = ''openai''\<rparr>),
      (''claude'', \<lparr>name = ''claude'', base_url = ''https://api.anthropic.com/v1'',
         api_key_env = Some ''ANTHROPIC_API_KEY'', kind = ''anthropic''\<rparr>),
      (''inference'', \<lparr>name = ''inference'', base_url = ''http://localhost:11434/v1'',
         api_key_env = Some ''INFERENCE_API_KEY'', kind = ''openai''\<rparr>)]"

text \<open>Truth of an \<^verbatim>\<open>Optional[str]\<close>: \<^verbatim>\<open>None\<close> and the empty string are false.
  \<^verbatim>\<open>x or y\<close> with a string \<open>y\<close> is then a string.\<close>

fun truthy_str :: "string option \<Rightarrow> bool" where
  "truthy_str None = False"
| "truthy_str (Some s) = (s \<noteq> [])"

fun str_or :: "string option \<Rightarrow> string \<Rightarrow> string" where
  "str_or None y = y"
| "str_or (Some s) y = (if s \<noteq> [] then s else y)"

text \<open>\<^verbatim>\<open>s.rstrip("/")\<close>.\<close>

definition rstrip_slash :: "string \<Rightarrow> string" where
  "rstrip_slash s = rev (dropWhile (\<lambda>c. c = CHR ''/'') (rev s))"

text \<open>Decimal digits of an integer, as an f-string prints it.\<close>

fun nat_digits :: "nat \<Rightarrow> string" where
  "nat_digits n =
     (if n < 10 then [''0123456789'' ! n]
      else nat_digits (n div 10) @ [''0123456789'' ! (n mod 10)])"

definition str_of_int :: "int \<Rightarrow> string" where
  "str_of_int i = (if i < 0 then ''-'' @ nat_digits (nat (- i)) else nat_digits (nat i))"

text \<open>
  The network is a parameter. A request is what \<^verbatim>\<open>_post_json\<close> hands to
  \<^verbatim>\<open>urllib.request\<close>. What the library does with it is one of:
  \<^item> \<open>UnknownUrlType\<close>: \<^verbatim>\<open>urllib.request.Request(url, ...)\<close> raises ValueError because the
    URL has no scheme; this is before the \<^verbatim>\<open>try\<close> block, and nothing is sent;
  \<^item> \<open>Replied j\<close>: the body was read, decoded and accepted by \<^verbatim>\<open>json.loads\<close> as \<open>j\<close>;
  \<^item> \<open>InvalidJson\<close>: \<^verbatim>\<open>json.loads\<close> raised JSONDecodeError;
  \<^item> \<open>HTTPError code detail\<close> and \<open>URLError reason\<close>: \<^verbatim>\<open>urlopen\<close> raised the exception
    of that name, with the text the handler puts into its message;
  \<^item> \<open>NotUtf8\<close>: \<^verbatim>\<open>decode("utf-8")\<close> raised UnicodeDecodeError, on the body or on the
    detail of an HTTPError;
  \<^item> \<open>Uncaught cls\<close>: an exception of another class \<open>cls\<close> left the \<^verbatim>\<open>try\<close> block, such
    as \<^verbatim>\<open>http.client.RemoteDisconnected\<close> or a timeout while the body is read.
  The three handlers of \<^verbatim>\<open>_post_json\<close> catch HTTPError, URLError and JSONDecodeError
  only. Besides its result \<^verbatim>\<open>_post_json\<close> reports how many requests it handed to
  \<^verbatim>\<open>urlopen\<close>.
\<close>

record http_request =
  url :: string
  payload :: pydict
  headers :: "(string \<times> string) list"

datatype http_outcome =
    UnknownUrlType
  | Replied json
  | InvalidJson
  | HTTPError int string
  | URLError string
  | NotUtf8
  | Uncaught string

definition post_json ::
  "(http_request \<Rightarrow> http_outcome) \<Rightarrow> string \<Rightarrow> pydict \<Rightarrow> (string \<times> string) list
    \<Rightarrow> nat \<times> (error + json)" where
  "post_json net u p h =
     (case net \<lparr>url = u, payload = p, headers = h\<rparr> of
        UnknownUrlType \<Rightarrow> (0, Inl ValueError)
      | Replied j \<Rightarrow> (1, Inr j)
      | HTTPError code detail \<Rightarrow>
          (1, Inl (ProviderError (''HTTP '' @ str_of_int code @ '': '' @ detail)))
      | URLError reason \<Rightarrow> (1, Inl (ProviderError (''Connection error: '' @ reason)))
      | InvalidJson \<Rightarrow> (1, Inl (ProviderError ''Invalid JSON response''))
      | NotUtf8 \<Rightarrow> (1, Inl UnicodeDecodeError)
      | Uncaught cls \<Rightarrow> (1, Inl (OtherException cls)))"

text \<open>\<^verbatim>\<open>x[0]\<close> on a JSON value: the first element of a list, the first character of a
  string, KeyError on a dict (its keys are strings), TypeError on the rest.\<close>

fun py_index0 :: "json \<Rightarrow> error + json" where
  "py_index0 (JList (x # xs)) = Inr x"
| "py_index0 (JList []) = Inl IndexError"
| "py_index0 (JStr (c # cs)) = Inr (JStr [c])"
| "py_index0 (JStr []) = Inl IndexError"
| "py_index0 (JDict d) = Inl KeyError"
| "py_index0 _ = Inl TypeError"

text \<open>The part of \<^verbatim>\<open>_request_openai_compatible\<close> after the request, from the decoded
  body to the content:
  \<^verbatim>\<open>
  content = ""
  if isinstance(data, dict):
      choices = data.get("choices") or []
      if choices:
          first = choices[0]
          message_obj = first.get("message") or {}
          content = message_obj.get("content") or first.get("text") or ""
  \<close>\<close>

definition openai_content :: "json \<Rightarrow> error + json" where
  "openai_content data =
     (case data of
        JDict d \<Rightarrow>
          (let choices = py_or (py_get d ''choices'') (JList []) in
           if truthy choices then
             (case py_index0 choices of
                Inl err \<Rightarrow> Inl err
              | Inr first \<Rightarrow>
                  (case attr_get first ''message'' of
                     Inl err \<Rightarrow> Inl err
                   | Inr m \<Rightarrow>
                       (let message_obj = py_or m (JDict []) in
                        case attr_get message_obj ''content'' of
                          Inl err \<Rightarrow> Inl err
                        | Inr c \<Rightarrow>
                            if truthy c then Inr c
                            else
                              (case attr_get first ''text'' of
                                 Inl err \<Rightarrow> Inl err
                               | Inr t \<Rightarrow> Inr (py_or t (JStr []))))))
           else Inr (JStr []))
      | _ \<Rightarrow> Inr (JStr []))"

definition request_openai_compatible ::
  "(http_request \<Rightarrow> http_outcome) \<Rightarrow> string \<Rightarrow> string option \<Rightarrow> string \<Rightarrow> string
    \<Rightarrow> string option \<Rightarrow> pyfloat \<Rightarrow> int \<Rightarrow> nat \<times> (error + json \<times> pydict)" where
  "request_openai_compatible net base key mdl msg sys temp maxtok =
     (let u = base @ ''/chat/completions'';
          messages =
            (case sys of
               Some s \<Rightarrow>
                 if s \<noteq> [] then [JDict [(''role'', JStr ''system''), (''content'', JStr s)]]
                 else []
             | None \<Rightarrow> [])
            @ [JDict [(''role'', JStr ''user''), (''content'', JStr msg)]];
          p = [(''model'', JStr mdl), (''messages'', JList messages),
               (''temperature'', JFloat temp), (''max_tokens'', JInt maxtok)];
          h = [(''Content-Type'', ''application/json'')]
              @ (case key of
                   Some k \<Rightarrow> if k \<noteq> [] then [(''Authorization'', ''Bearer '' @ k)] else []
                 | None \<Rightarrow> []);
          (sent, res) = post_json net u p h
      in (sent,
          case res of
            Inl err \<Rightarrow> Inl err
          | Inr data \<Rightarrow>
              (case openai_content data of
                 Inl err \<Rightarrow> Inl err
               | Inr content \<Rightarrow>
                   if \<not> truthy content then Inl (ProviderError ''Empty response from provider'')
                   else Inr (content, [(''request_url'', JStr u)]))))"

text \<open>The same for \<^verbatim>\<open>_request_anthropic\<close>:
  \<^verbatim>\<open>
  content = ""
  if isinstance(data, dict):
      parts = data.get("content") or []
      if parts:
          first = parts[0]
          content = first.get("text") or ""
  \<close>\<close>

definition anthropic_content :: "json \<Rightarrow> error + json" where
  "anthropic_content data =
     (case data of
        JDict d \<Rightarrow>
          (let parts = py_or (py_get d ''content'') (JList []) in
           if truthy parts then
             (case py_index0 parts of
                Inl err \<Rightarrow> Inl err
              | Inr first \<Rightarrow>
                  (case attr_get first ''text'' of
                     Inl err \<Rightarrow> Inl err
                   | Inr t \<Rightarrow> Inr (py_or t (JStr []))))
           else Inr (JStr []))
      | _ \<Rightarrow> Inr (JStr []))"

definition request_anthropic ::
  "(http_request \<Rightarrow> http_outcome) \<Rightarrow> string \<Rightarrow> string option \<Rightarrow> string \<Rightarrow> string
    \<Rightarrow> string option \<Rightarrow> pyfloat \<Rightarrow> int \<Rightarrow> nat \<times> (error + json \<times> pydict)" where
  "request_anthropic net base key mdl msg sys temp maxtok =
     (let u = base @ ''/messages'';
          p = [(''model'', JStr mdl), (''max_tokens'', JInt maxtok),
               (''temperature'', JFloat temp),
               (''messages'',
                  JList [JDict [(''role'', JStr ''user''), (''content'', JStr msg)]])]
              @ (case sys of
                   Some s \<Rightarrow> if s \<noteq> [] then [(''system'', JStr s)] else []
                 | None \<Rightarrow> []);
          h = [(''Content-Type'', ''application/json''),
               (''anthropic-version'', ''2023-06-01'')]
              @ (case key of
                   Some k \<Rightarrow> if k \<noteq> [] then [(''x-api-key'', k)] else []
                 | None \<Rightarrow> []);
          (sent, res) = post_json net u p h
      in (sent,
          case res of
            Inl err \<Rightarrow> Inl err
          | Inr data \<Rightarrow>
              (case anthropic_content data of
                 Inl err \<Rightarrow> Inl err
               | Inr content \<Rightarrow>
                   if \<not> truthy content then Inl (ProviderError ''Empty response from provider'')
                   else Inr (content, [(''request_url'', JStr u)]))))"

text \<open>The keyword arguments of \<^verbatim>\<open>request_chat\<close>; the same values are the options of the
  \<^verbatim>\<open>chat\<close> subcommand.\<close>

record chat_args =
  provider :: string
  model :: string
  message :: string
  system :: "string option"
  temperature :: pyfloat
  max_tokens :: int
  base_url :: "string option"
  api_key :: "string option"

text \<open>
  \<^verbatim>\<open>request_chat\<close>. Besides its result it reports how many requests it handed to the
  network (none when it raises before the dispatch or the library refuses the URL, one
  otherwise), so that a failure before any request can be told from one after.
\<close>

definition request_chat ::
  "(string \<Rightarrow> string option) \<Rightarrow> (http_request \<Rightarrow> http_outcome) \<Rightarrow> chat_args
    \<Rightarrow> nat \<times> (error + json \<times> pydict)" where
  "request_chat env net a =
     (case map_of PROVIDERS (provider a) of
        None \<Rightarrow> (0, Inl (ProviderError (''Unsupported provider: '' @ provider a)))
      | Some config \<Rightarrow>
          (let resolved_base =
                 rstrip_slash (str_or (chat_args.base_url a) (ProviderConfig.base_url config));
               env_name = str_or (api_key_env config) [];
               key = (if truthy_str (api_key a) then api_key a
                      else if truthy_str (api_key_env config) then env env_name
                      else None)
           in if truthy_str (api_key_env config) \<and> \<not> truthy_str key then
                (0, Inl (ProviderError
                   (''Missing API key. Set '' @ env_name
                      @ '' or pass --api-key for '' @ provider a @ ''.'')))
              else if kind config = ''anthropic'' then
                request_anthropic net resolved_base key (model a) (message a)
                  (system a) (temperature a) (max_tokens a)
              else
                request_openai_compatible net resolved_base key (model a) (message a)
                  (system a) (temperature a) (max_tokens a)))"

section \<open>The command line program (cli.py)\<close>

definition V :: string where
  "V = ''1.0.0''"

text \<open>
  \<^verbatim>\<open>make_cmd\<close>. The timestamp \<open>ts\<close> is the reading of \<^verbatim>\<open>now_ms()\<close> the function
  starts with; \<open>gen\<close> is \<^verbatim>\<open>idgen.next_id\<close> (ids.py is not among the sources, so the
  identifier generator is a parameter).
\<close>

definition make_cmd ::
  "(string \<Rightarrow> int \<Rightarrow> string) \<Rightarrow> int \<Rightarrow> string \<Rightarrow> string \<Rightarrow> pydict \<Rightarrow> string \<Rightarrow> string
    \<Rightarrow> pydict" where
  "make_cmd gen ts sess op args source_kind who =
     [(''@type'', JStr ''kuhul.command''),
      (''@v'', JStr V),
      (''id'', JStr (gen ''cmd'' ts)),
      (''ts_ms'', JInt ts),
      (''source'',
         JDict [(''kind'', JStr source_kind), (''who'', JStr who), (''session'', JStr sess)]),
      (''op'', JStr op),
      (''args'', JDict args)]"

text \<open>\<^verbatim>\<open>os.path.join(a, b)\<close> for two parts, on POSIX.\<close>

fun starts_with_slash :: "string \<Rightarrow> bool" where
  "starts_with_slash [] = False"
| "starts_with_slash (c # cs) = (c = CHR ''/'')"

definition os_path_join :: "string \<Rightarrow> string \<Rightarrow> string" where
  "os_path_join a b =
     (if starts_with_slash b then b
      else if a = [] \<or> starts_with_slash (rev a) then a @ b
      else a @ ''/'' @ b)"

text \<open>\<^verbatim>\<open>os.path.basename\<close> on POSIX: what follows the last slash.\<close>

definition os_path_basename :: "string \<Rightarrow> string" where
  "os_path_basename p = rev (takeWhile (\<lambda>c. c \<noteq> CHR ''/'') (rev p))"

text \<open>The parsed command line: the global options and the subcommand with its own.\<close>

datatype subcmd =
    Create string "string option"
  | Theme string
  | ExportSvg "string option"
  | Replay "string option" "string option"
  | Chat chat_args

record cli_args =
  session :: string
  out :: string
  events :: "string option"
  quiet :: bool
  cmd :: subcmd

text \<open>
  The modules ids, session_log, bus, engine, svg_renderer and state are not among the
  sources. What \<^verbatim>\<open>main\<close> asks of them, of the clock, of the environment and of the
  network is a parameter:
  \<^item> \<open>now_ms k\<close> is reading number \<open>k\<close> of \<^verbatim>\<open>now_ms()\<close> in this run;
  \<^item> \<open>next_id\<close> is \<^verbatim>\<open>next_id\<close> of the generator \<^verbatim>\<open>IdGen()\<close> that \<^verbatim>\<open>main\<close> creates, at
    its first call;
  \<^item> \<open>read_all p\<close> is what \<^verbatim>\<open>SessionLog(p).read_all()\<close> gives: the records of the file
    at \<open>p\<close> in order, or the exception it raises;
  \<^item> \<open>apply_command st c\<close> is the state \<^verbatim>\<open>engine.state\<close> after \<^verbatim>\<open>engine.apply_command(c)\<close>
    on an engine that held \<open>st\<close>, or the exception it raises;
  \<^item> \<open>render_svg st\<close> is \<^verbatim>\<open>render_svg(st.to_dict())\<close>;
  \<^item> \<open>getenv\<close> is \<^verbatim>\<open>os.getenv\<close>, \<open>urlopen\<close> the network, \<open>default_theme\<close> the theme of
    \<^verbatim>\<open>KuhulState()\<close>.
\<close>

record collab =
  now_ms :: "nat \<Rightarrow> int"
  next_id :: "string \<Rightarrow> int \<Rightarrow> string"
  read_all :: "string \<Rightarrow> error + pydict list"
  apply_command :: "KuhulState \<Rightarrow> pydict \<Rightarrow> error + KuhulState"
  render_svg :: "KuhulState \<Rightarrow> string"
  getenv :: "string \<Rightarrow> string option"
  urlopen :: "http_request \<Rightarrow> http_outcome"
  default_theme :: string

text \<open>
  What a run does to the outside, in order: the calls of \<^verbatim>\<open>main\<close> to its collaborators
  that change something or show something. \<open>LogAppend p r\<close> is
  \<^verbatim>\<open>SessionLog(p).append(r)\<close>, \<open>EmitEvent ts caused_by topic data\<close> is
  \<^verbatim>\<open>engine.emit_event(ts_ms=.., caused_by=.., topic=.., data=..)\<close>, \<open>StateSnapshot i\<close> is
  \<^verbatim>\<open>engine.state_snapshot(caused_by=i)\<close>, \<open>HttpPost\<close> one request sent by
  \<^verbatim>\<open>request_chat\<close>. Creating the log, bus, generator and engine objects changes nothing
  outside and is left out, as is the subscription of the printer to the bus: what it
  prints belongs to the bus. \<^verbatim>\<open>argparse\<close> has a subcommand for every run, so the final
  \<^verbatim>\<open>return 2\<close> is never reached.
\<close>

datatype effect =
    EnsureDir string
  | LogAppend string pydict
  | ApplyCommand pydict
  | StateSnapshot json
  | EmitEvent int json string pydict
  | WriteText string string
  | HttpPost
  | Print string
  | PrintValue json
  | PrintErr string

definition cmd_log_path :: "cli_args \<Rightarrow> string" where
  "cmd_log_path a = os_path_join (out a) (session a @ ''.commands.jsonl'')"

text \<open>The common second half of \<^verbatim>\<open>create\<close>, \<^verbatim>\<open>theme\<close> and \<^verbatim>\<open>export-svg\<close>: log the
  command, apply it, snapshot, write the SVG.\<close>

definition run_command ::
  "collab \<Rightarrow> cli_args \<Rightarrow> pydict \<Rightarrow> string \<Rightarrow> effect list \<times> (error + int)" where
  "run_command c a command svg_path =
     (case apply_command c (KuhulState_init (default_theme c)) command of
        Inl err \<Rightarrow> ([LogAppend (cmd_log_path a) command, ApplyCommand command], Inl err)
      | Inr st \<Rightarrow>
          ([LogAppend (cmd_log_path a) command,
            ApplyCommand command,
            StateSnapshot (py_get command ''id''),
            WriteText svg_path (render_svg c st)]
           @ (if \<not> quiet a then [Print (''SVG written: '' @ svg_path)] else []),
           Inr 0))"

definition main_create ::
  "collab \<Rightarrow> cli_args \<Rightarrow> string \<Rightarrow> string option \<Rightarrow> effect list \<times> (error + int)" where
  "main_create c a component text =
     (let props = (case text of
                     None \<Rightarrow> []
                   | Some t \<Rightarrow> [(if component \<noteq> ''card'' then ''text'' else ''label'', JStr t)]);
          command = make_cmd (next_id c) (now_ms c 0) (session a) ''ui.create''
                      [(''component'', JStr component), (''props'', JDict props)]
                      ''cli'' ''local''
      in run_command c a command (os_path_join (out a) (session a @ ''.svg'')))"

definition main_theme :: "collab \<Rightarrow> cli_args \<Rightarrow> string \<Rightarrow> effect list \<times> (error + int)" where
  "main_theme c a nm =
     (let command = make_cmd (next_id c) (now_ms c 0) (session a) ''ui.theme.apply''
                      [(''name'', JStr nm)] ''cli'' ''local''
      in run_command c a command (os_path_join (out a) (session a @ ''.svg'')))"

definition main_export_svg ::
  "collab \<Rightarrow> cli_args \<Rightarrow> string option \<Rightarrow> effect list \<times> (error + int)" where
  "main_export_svg c a file =
     (let out_svg = str_or file (os_path_join (out a) (session a @ ''.svg''));
          command = make_cmd (next_id c) (now_ms c 0) (session a) ''svg.export''
                      [(''hint'', JStr (os_path_basename out_svg))] ''cli'' ''local''
      in run_command c a command out_svg)"

text \<open>The \<^verbatim>\<open>replay\<close> subcommand: the path of the log it reads, the state it reconstructs,
  and the whole branch.\<close>

definition replay_log_path :: "cli_args \<Rightarrow> string option \<Rightarrow> string" where
  "replay_log_path a file = str_or file (os_path_join (out a) (session a @ ''.events.jsonl''))"

definition replay_state :: "collab \<Rightarrow> cli_args \<Rightarrow> string option \<Rightarrow> error + KuhulState" where
  "replay_state c a file =
     (case read_all c (replay_log_path a file) of
        Inl err \<Rightarrow> Inl err
      | Inr evs \<Rightarrow> replay_fold (KuhulState_init (default_theme c)) evs)"

definition main_replay ::
  "collab \<Rightarrow> cli_args \<Rightarrow> string option \<Rightarrow> string option \<Rightarrow> effect list \<times> (error + int)" where
  "main_replay c a file svg =
     (let replay_svg = str_or svg (os_path_join (out a) (session a @ ''.replay.svg''))
      in case replay_state c a file of
           Inl err \<Rightarrow> ([], Inl err)
         | Inr st \<Rightarrow>
             ([WriteText replay_svg (render_svg c st)]
              @ (if \<not> quiet a then [Print (''Replayed SVG written: '' @ replay_svg)] else []),
              Inr 0))"

text \<open>The \<^verbatim>\<open>chat\<close> subcommand. Only a \<^verbatim>\<open>ProviderError\<close> is caught; any other exception
  of \<^verbatim>\<open>request_chat\<close> leaves \<^verbatim>\<open>main\<close>, and no event is emitted then.\<close>

definition chat_command :: "collab \<Rightarrow> cli_args \<Rightarrow> chat_args \<Rightarrow> pydict" where
  "chat_command c a ch =
     make_cmd (next_id c) (now_ms c 0) (session a) ''ai.chat''
       [(''provider'', JStr (provider ch)),
        (''model'', JStr (model ch)),
        (''message'', JStr (message ch)),
        (''system'', (case system ch of None \<Rightarrow> JNull | Some s \<Rightarrow> JStr s)),
        (''temperature'', JFloat (temperature ch)),
        (''max_tokens'', JInt (max_tokens ch))]
       ''cli'' ''local''"

definition main_chat :: "collab \<Rightarrow> cli_args \<Rightarrow> chat_args \<Rightarrow> effect list \<times> (error + int)" where
  "main_chat c a ch =
     (let command = chat_command c a ch;
          (sent, res) = request_chat (getenv c) (urlopen c) ch;
          before = [LogAppend (cmd_log_path a) command] @ replicate sent HttpPost
      in case res of
           Inl (ProviderError msg) \<Rightarrow>
             (before
              @ [EmitEvent (now_ms c 1) (py_get command ''id'') ''ai.chat.failed''
                   [(''provider'', JStr (provider ch)), (''error'', JStr msg)],
                 PrintErr (''Error: '' @ msg)],
              Inr 1)
         | Inl err \<Rightarrow> (before, Inl err)
         | Inr (content, meta) \<Rightarrow>
             (before
              @ [EmitEvent (now_ms c 1) (py_get command ''id'') ''ai.chat.completed''
                   [(''provider'', JStr (provider ch)),
                    (''model'', JStr (model ch)),
                    (''response'', content),
                    (''meta'', JDict meta)],
                 PrintValue content],
              Inr 0))"

definition main :: "collab \<Rightarrow> cli_args \<Rightarrow> effect list \<times> (error + int)" where
  "main c a =
     (let (effs, res) =
            (case cmd a of
               Create component text \<Rightarrow> main_create c a component text
             | Theme nm \<Rightarrow> main_theme c a nm
             | ExportSvg file \<Rightarrow> main_export_svg c a file
             | Replay file svg \<Rightarrow> main_replay c a file svg
             | Chat ch \<Rightarrow> main_chat c a ch)
      in (EnsureDir (out a) # effs, res))"

text \<open>The records a run appends to a log, with the path of each, and the events it
  emits.\<close>

fun log_appends :: "effect list \<Rightarrow> (string \<times> pydict) list" where
  "log_appends [] = []"
| "log_appends (LogAppend p r # xs) = (p, r) # log_appends xs"
| "log_appends (x # xs) = log_appends xs"


section \<open>The command engine\<close>

text \<open>
  Modelled from the spec: \<^verbatim>\<open>Engine.apply_command\<close> and \<^verbatim>\<open>Engine.emit_event\<close> (engine.py,
  bus.py, ids.py and session_log.py are not among the sources). The engine holds the
  state projection, the event log its bus persists to, and the count of identifiers its
  generator has handed out. The operation names are the ones cli.py puts into its
  commands, the component types and themes the ones it accepts. What the specification
  leaves open is a parameter: the generator \<open>gen\<close> (from the count, the kind and the
  timestamp to an identifier), the timestamp \<open>ts\<close> of the events, and the topic
  \<open>export_topic\<close> of the informational export event.
\<close>

record engine =
  eng_state :: KuhulState
  eng_log :: "pydict list"
  eng_ids :: nat

definition component_types :: "string list" where
  "component_types = [''button'', ''card'', ''chat-bubble'']"

definition themes :: "string list" where
  "themes = [''dark'', ''light'']"

definition recognized_ops :: "string list" where
  "recognized_ops = [''ui.create'', ''ui.theme.apply'', ''svg.export'', ''ai.chat'']"

text \<open>\<open>emit_event\<close> builds an event with a fresh identifier and hands it to the bus, which
  appends it to the log.\<close>

definition spec_emit_event ::
  "(nat \<Rightarrow> string \<Rightarrow> int \<Rightarrow> string) \<Rightarrow> engine \<Rightarrow> int \<Rightarrow> json \<Rightarrow> string \<Rightarrow> pydict \<Rightarrow> engine" where
  "spec_emit_event gen eng ts caused_by topic data =
     eng\<lparr>eng_log := eng_log eng @
            [[(''id'', JStr (gen (eng_ids eng) ''evt'' ts)),
              (''ts_ms'', JInt ts),
              (''caused_by'', caused_by),
              (''topic'', JStr topic),
              (''data'', JDict data)]],
         eng_ids := Suc (eng_ids eng)\<rparr>"

text \<open>\<open>apply_command\<close> by the table of the specification: the precondition, then the
  mutation, then the event. It returns the error, if any, and the engine afterwards.\<close>

definition spec_apply_command ::
  "(nat \<Rightarrow> string \<Rightarrow> int \<Rightarrow> string) \<Rightarrow> int \<Rightarrow> string \<Rightarrow> engine \<Rightarrow> pydict
    \<Rightarrow> error option \<times> engine" where
  "spec_apply_command gen ts export_topic eng command =
     (let op = py_get command ''op'';
          args = (case py_get command ''args'' of JDict d \<Rightarrow> d | _ \<Rightarrow> [])
      in
        if op = JStr ''ui.create'' then
          (case py_get args ''component'' of
             JStr t \<Rightarrow>
               if t \<in> set component_types then
                 (let created = JDict [(''id'', JStr (gen (eng_ids eng) ''cmp'' ts)),
                                      (''type'', JStr t),
                                      (''props'', py_get_default args ''props'' (JDict []))];
                      eng1 = eng\<lparr>eng_state :=
                                   (eng_state eng)\<lparr>components :=
                                      components (eng_state eng) @ [created]\<rparr>,
                                 eng_ids := Suc (eng_ids eng)\<rparr>
                  in (None, spec_emit_event gen eng1 ts (py_get command ''id'') ''state.changed''
                              [(''kind'', JStr ''component.created''), (''component'', created)]))
               else (Some InvalidArgument, eng)
           | _ \<Rightarrow> (Some InvalidArgument, eng))
        else if op = JStr ''ui.theme.apply'' then
          (case py_get args ''name'' of
             JStr n \<Rightarrow>
               if n \<in> set themes then
                 (let eng1 = eng\<lparr>eng_state := (eng_state eng)\<lparr>theme := n\<rparr>\<rparr>
                  in (None, spec_emit_event gen eng1 ts (py_get command ''id'') ''state.changed''
                              [(''kind'', JStr ''theme.changed''), (''to'', JStr n)]))
               else (Some InvalidArgument, eng)
           | _ \<Rightarrow> (Some InvalidArgument, eng))
        else if op = JStr ''svg.export'' then
          (None, spec_emit_event gen eng ts (py_get command ''id'') export_topic
                   [(''hint'', py_get args ''hint'')])
        else if op = JStr ''ai.chat'' then (None, eng)
        else (Some UnrecognizedOperation, eng))"

section \<open>Sample inputs\<close>

text \<open>Concrete collaborators and command lines, on which the theorems below are run: a
  clock that advances by one millisecond per reading, a generator that numbers by the
  kind, no files, an engine that leaves the state alone, an empty environment, and a
  server that answers every request with one choice whose content is \<open>hi\<close>.\<close>

definition sample_reply :: json where
  "sample_reply =
     JDict [(''choices'',
        JList [JDict [(''message'',
           JDict [(''role'', JStr ''assistant''), (''content'', JStr ''hi'')])]])]"

definition sample_collab :: collab where
  "sample_collab =
     \<lparr>now_ms = (\<lambda>k. 1700000000000 + int k),
      next_id = (\<lambda>k ts. k @ ''_1''),
      read_all = (\<lambda>p. Inr []),
      apply_command = (\<lambda>st c. Inr st),
      render_svg = (\<lambda>st. ''<svg/>''),
      getenv = (\<lambda>v. None),
      urlopen = (\<lambda>r. Replied sample_reply),
      default_theme = ''dark''\<rparr>"

definition sample_chat :: "string option \<Rightarrow> chat_args" where
  "sample_chat k =
     \<lparr>provider = ''inference'', model = ''llama3'', message = ''hello'', system = None,
      temperature = Finite (1 / 5), max_tokens = 512, base_url = None, api_key = k\<rparr>"

definition sample_args :: "subcmd \<Rightarrow> cli_args" where
  "sample_args sc =
     \<lparr>session = ''sess_local'', out = ''output'', events = None, quiet = True, cmd = sc\<rparr>"

definition snapshot_event :: pydict where
  "snapshot_event =
     [(''id'', JStr ''evt_9''), (''ts_ms'', JInt 1700000000002), (''caused_by'', JStr ''cmd_1''),
      (''topic'', JStr ''state.snapshot''),
      (''data'', JDict [(''components'', JList [button_component]),
                        (''theme'', JStr ''light'')])]"

definition sample_log_collab :: "pydict list \<Rightarrow> collab" where
  "sample_log_collab es =
     sample_collab\<lparr>read_all :=
       (\<lambda>p. if p = ''output/sess_local.events.jsonl'' then Inr es else Inr [])\<rparr>"

definition sample_log :: "pydict list" where
  "sample_log =
     [component_created ''evt_1'' button_component,
      snapshot_event,
      theme_changed ''evt_2'' (JStr ''dark''),
      component_created ''evt_3'' card_component]"

text \<open>An engine that has done nothing yet, a generator that numbers the identifiers of
  a kind, and a command as \<^verbatim>\<open>main\<close> builds it.\<close>

definition sample_gen :: "nat \<Rightarrow> string \<Rightarrow> int \<Rightarrow> string" where
  "sample_gen n k ts = k @ ''_'' @ nat_digits (Suc n)"

definition sample_engine :: engine where
  "sample_engine = \<lparr>eng_state = KuhulState_init ''dark'', eng_log = [], eng_ids = 0\<rparr>"

definition sample_command :: "string \<Rightarrow> pydict \<Rightarrow> pydict" where
  "sample_command op args =
     make_cmd (next_id sample_collab) (now_ms sample_collab 0) ''sess_local'' op args
       ''cli'' ''local''"

section \<open>Properties of the replay fold\<close>

subsection \<open>Lookups\<close>

lemma py_get_eq_JStr: "(py_get d k = JStr s) = (map_of d k = Some (JStr s))"
  by (simp add: py_get_def py_get_default_def split: option.splits)

lemma is_state_changed_map_of:
  "is_state_changed e = (map_of e ''topic'' = Some (JStr ''state.changed''))"
  by (simp add: is_state_changed_def py_get_eq_JStr)

lemma replay_step_other_topic: "\<not> is_state_changed e \<Longrightarrow> replay_step st e = Inr st"
  by (simp add: replay_step_def is_state_changed_def)

text \<open>When \<open>data\<close> is a mapping, absent or false, the loop body works on a dict whose
  entries are the fields the specification speaks of.\<close>

lemma data_of_mapping:
  assumes "data_is_mapping e"
  shows "\<exists>d. py_or (py_get_default e ''data'' (JDict [])) (JDict []) = JDict d
           \<and> (\<forall>k. data_field e k = map_of d k)"
proof (cases "map_of e ''data''")
  case None
  then have "py_or (py_get_default e ''data'' (JDict [])) (JDict []) = JDict []"
    and "\<forall>k. data_field e k = map_of [] k"
    by (simp_all add: py_or_def py_get_default_def data_field_def)
  then show ?thesis by blast
next
  case (Some v)
  show ?thesis
  proof (cases "is_dict v")
    case True
    then obtain d where v: "v = JDict d" by (cases v) simp_all
    have "py_or (py_get_default e ''data'' (JDict [])) (JDict []) = JDict d"
      using Some v by (simp add: py_or_def py_get_default_def)
    moreover have "\<forall>k. data_field e k = map_of d k"
      using Some v by (simp add: data_field_def)
    ultimately show ?thesis by blast
  next
    case False
    with assms Some have f: "\<not> truthy v"
      by (cases v) (simp_all add: data_is_mapping_def)
    have "py_or (py_get_default e ''data'' (JDict [])) (JDict []) = JDict []"
      using Some f by (simp add: py_or_def py_get_default_def)
    moreover have "\<forall>k. data_field e k = map_of [] k"
      using Some False by (cases v) (simp_all add: data_field_def)
    ultimately show ?thesis by blast
  qed
qed

lemma replay_step_on_dict:
  assumes "is_state_changed e"
    and "py_or (py_get_default e ''data'' (JDict [])) (JDict []) = JDict d"
  shows "replay_step st e =
     Inr (if map_of d ''kind'' = Some (JStr ''component.created'') then
            (case map_of d ''component'' of
               Some (JDict c) \<Rightarrow> st\<lparr>components := components st @ [JDict c]\<rparr>
             | _ \<Rightarrow> st)
          else if map_of d ''kind'' = Some (JStr ''theme.changed'') then
            (if map_of d ''to'' = Some (JStr ''dark'') then st\<lparr>theme := ''dark''\<rparr>
             else if map_of d ''to'' = Some (JStr ''light'') then st\<lparr>theme := ''light''\<rparr>
             else st)
          else st)"
proof -
  from assms(1) have t: "py_get e ''topic'' = JStr ''state.changed''"
    by (simp add: is_state_changed_def)
  consider (created) "map_of d ''kind'' = Some (JStr ''component.created'')"
    | (themed) "map_of d ''kind'' = Some (JStr ''theme.changed'')"
    | (other) "map_of d ''kind'' \<noteq> Some (JStr ''component.created'')"
        "map_of d ''kind'' \<noteq> Some (JStr ''theme.changed'')"
    by blast
  then show ?thesis
  proof cases
    case created
    then have k: "py_get d ''kind'' = JStr ''component.created''"
      by (simp add: py_get_eq_JStr)
    show ?thesis
    proof (cases "map_of d ''component''")
      case None
      then have "py_get d ''component'' = JNull"
        by (simp add: py_get_def py_get_default_def)
      with t assms(2) created k None show ?thesis
        by (simp add: replay_step_def)
    next
      case (Some v)
      then have "py_get d ''component'' = v"
        by (simp add: py_get_def py_get_default_def)
      with t assms(2) created k Some show ?thesis
        by (cases v) (simp_all add: replay_step_def)
    qed
  next
    case themed
    then have k: "py_get d ''kind'' = JStr ''theme.changed''"
      by (simp add: py_get_eq_JStr)
    show ?thesis
    proof (cases "map_of d ''to''")
      case None
      then have "py_get d ''to'' = JNull"
        by (simp add: py_get_def py_get_default_def)
      with t assms(2) themed k None show ?thesis
        by (simp add: replay_step_def)
    next
      case (Some v)
      then have "py_get d ''to'' = v"
        by (simp add: py_get_def py_get_default_def)
      with t assms(2) themed k Some show ?thesis
        by (cases v) (auto simp add: replay_step_def)
    qed
  next
    case other
    then have k: "py_get d ''kind'' \<noteq> JStr ''component.created''"
       "py_get d ''kind'' \<noteq> JStr ''theme.changed''"
      by (simp_all add: py_get_eq_JStr)
    show ?thesis
      using t assms(2) other k by (simp add: replay_step_def)
  qed
qed

lemma replay_step_amended:
  assumes "is_state_changed e \<longrightarrow> data_is_mapping e"
  shows "replay_step st e = Inr (spec_step_amended st e)"
proof (cases "is_state_changed e")
  case False
  then show ?thesis
    by (simp add: replay_step_other_topic spec_step_amended_def is_state_changed_map_of)
next
  case True
  with assms have "data_is_mapping e" by simp
  then obtain d where d: "py_or (py_get_default e ''data'' (JDict [])) (JDict []) = JDict d"
    and f: "\<And>k. data_field e k = map_of d k"
    using data_of_mapping by blast
  from True have t: "map_of e ''topic'' = Some (JStr ''state.changed'')"
    by (simp add: is_state_changed_map_of)
  show ?thesis
    unfolding replay_step_on_dict[OF True d] spec_step_amended_def f
    using t by simp
qed

lemma replay_fold_amended:
  "\<forall>e\<in>set es. is_state_changed e \<longrightarrow> data_is_mapping e \<Longrightarrow>
   replay_fold st es = Inr (foldl spec_step_amended st es)"
  by (induction es arbitrary: st) (simp_all add: replay_step_amended)

lemma replay_fold_append:
  "replay_fold st (xs @ ys) =
     (case replay_fold st xs of Inl err \<Rightarrow> Inl err | Inr st' \<Rightarrow> replay_fold st' ys)"
  by (induction xs arbitrary: st) (simp_all split: sum.splits)

lemma replay_fold_filter:
  "replay_fold st (filter is_state_changed es) = replay_fold st es"
  by (induction es arbitrary: st) (simp_all add: replay_step_other_topic split: sum.splits)

subsection \<open>Scenario 3\<close>

lemma scenario3_replay:
  "replay_fold (KuhulState_init d) scenario3_events =
    Inr \<lparr>components = [button_component, card_component], theme = ''dark''\<rparr>"
  by (simp add: scenario3_events_def component_created_def theme_changed_def replay_step_def
      KuhulState_init_def py_get_def py_get_default_def py_or_def button_component_def
      card_component_def)

lemma scenario3_wellformed:
  "\<forall>e\<in>set scenario3_events. is_state_changed e \<longrightarrow> data_is_mapping e"
  by (simp add: scenario3_events_def component_created_def theme_changed_def
      data_is_mapping_def button_component_def card_component_def)

subsection \<open>The sample log\<close>

lemma sample_paths:
  "replay_log_path (sample_args (Replay None None)) None = ''output/sess_local.events.jsonl''"
  "cmd_log_path (sample_args sc) = ''output/sess_local.commands.jsonl''"
  by (simp_all add: replay_log_path_def cmd_log_path_def sample_args_def os_path_join_def)

lemma sample_log_replay:
  "replay_fold (KuhulState_init ''dark'') sample_log =
     Inr \<lparr>components = [button_component, card_component], theme = ''dark''\<rparr>"
  by (simp add: sample_log_def snapshot_event_def component_created_def theme_changed_def
      replay_step_def KuhulState_init_def py_get_def py_get_default_def py_or_def
      button_component_def card_component_def)

subsection \<open>The replay contract\<close>

text \<open>
  C1, as stated, at a concrete input. The event is a \<open>state.changed\<close> event of kind
  \<open>component.created\<close> whose \<open>data.component\<close> is the string \<open>button\<close>. By the contract as
  the specification words it the component is appended; the program appends nothing.
\<close>

theorem replay_appends_verbatim_counterexample:
  "data_field (component_created ''evt_1'' (JStr ''button'')) ''component''
      = Some (JStr ''button'')
   \<and> spec_replay ''dark'' [component_created ''evt_1'' (JStr ''button'')]
      = \<lparr>components = [JStr ''button''], theme = ''dark''\<rparr>
   \<and> replay_fold (KuhulState_init ''dark'') [component_created ''evt_1'' (JStr ''button'')]
      = Inr \<lparr>components = [], theme = ''dark''\<rparr>"
  by (simp add: component_created_def data_field_def spec_replay_def spec_step_def
      KuhulState_init_def replay_step_def py_get_def py_get_default_def py_or_def)

text \<open>
  C1, amended. Replay starts from the empty state with the default theme and goes through
  the events in order. For every \<open>state.changed\<close> event whose \<open>data\<close> is a mapping (or
  absent, or false): kind \<open>component.created\<close> appends \<open>data.component\<close> when it is a
  JSON object and is ignored otherwise; kind \<open>theme.changed\<close> sets the theme to
  \<open>data.to\<close> when that is \<open>dark\<close> or \<open>light\<close> and is ignored otherwise; every other
  topic and kind leaves the state as it is. Replay over the three events of scenario 3
  gives the two components in their order and the theme \<open>dark\<close>.
\<close>

theorem replay_follows_contract:
  assumes "\<forall>e\<in>set es. is_state_changed e \<longrightarrow> data_is_mapping e"
  shows "replay_fold (KuhulState_init d) es = Inr (spec_replay_amended d es)
       \<and> replay_fold (KuhulState_init d) scenario3_events =
           Inr \<lparr>components = [button_component, card_component], theme = ''dark''\<rparr>"
  using assms by (simp add: replay_fold_amended spec_replay_amended_def scenario3_replay)

theorem replay_follows_contract_witness:
  "spec_replay_amended ''light'' scenario3_events =
       \<lparr>components = [button_component, card_component], theme = ''dark''\<rparr>
   \<and> replay_fold (KuhulState_init ''light'') scenario3_events =
       Inr (spec_replay_amended ''light'' scenario3_events)"
proof -
  note run = replay_follows_contract[OF scenario3_wellformed, of "''light''"]
  from run have a: "replay_fold (KuhulState_init ''light'') scenario3_events =
      Inr (spec_replay_amended ''light'' scenario3_events)"
    by (rule conjunct1)
  from run have b: "replay_fold (KuhulState_init ''light'') scenario3_events =
      Inr \<lparr>components = [button_component, card_component], theme = ''dark''\<rparr>"
    by (rule conjunct2)
  from a b have "spec_replay_amended ''light'' scenario3_events =
      \<lparr>components = [button_component, card_component], theme = ''dark''\<rparr>"
    by simp
  with a show ?thesis by blast
qed

text \<open>
  C2, at a failing input. A \<open>state.changed\<close> event whose \<open>data\<close> is the string \<open>oops\<close>
  is a well-formed JSON object, and the replay fold ends with AttributeError on it:
  \<^verbatim>\<open>e.get("data", {}) or {}\<close> is the string, which has no \<^verbatim>\<open>get\<close>.
\<close>

theorem replay_raises_on_string_data:
  "replay_fold (KuhulState_init ''dark'')
     [[(''topic'', JStr ''state.changed''), (''data'', JStr ''oops'')]] = Inl AttributeError"
  by (simp add: replay_step_def py_get_def py_get_default_def py_or_def)

text \<open>
  C3, at a failing input. The event log holds a creation event for a button and then a
  \<open>state.changed\<close> event whose \<open>data\<close> is the list \<open>[1]\<close>. The first event alone
  replays to a State. On the whole log the fold, started from the fresh empty State,
  ends with AttributeError (\<^verbatim>\<open>[1].get("kind")\<close>), and so does every further run over
  the same log: no run produces a State, so there are no two States to compare. The
  defect is the one of C2.
\<close>

theorem replay_twice_produces_no_state:
  "replay_fold (KuhulState_init ''dark'') [component_created ''evt_1'' button_component]
     = Inr \<lparr>components = [button_component], theme = ''dark''\<rparr>
   \<and> replay_fold (KuhulState_init ''dark'')
       [component_created ''evt_1'' button_component,
        [(''topic'', JStr ''state.changed''), (''data'', JList [JInt 1])]]
     = Inl AttributeError"
  by (simp add: component_created_def button_component_def KuhulState_init_def
      replay_step_def py_get_def py_get_default_def py_or_def)

text \<open>
  C4. The reconstructed state depends only on the \<open>state.changed\<close> events of the event
  log. Removing every event of another topic from a sequence does not change what the
  fold gives. For the subcommand: when the commands log is another file than the log
  that is replayed, a run in which the event log holds only the \<open>state.changed\<close> events
  and the commands log holds anything at all (even a file that cannot be read)
  reconstructs the same state. Without \<^verbatim>\<open>--file\<close> the two logs are always different
  files.
\<close>

theorem replay_reads_state_changed_only:
  assumes "replay_log_path a file \<noteq> cmd_log_path a"
    and "read_all c (replay_log_path a file) = Inr es"
  shows "replay_fold st (filter is_state_changed es) = replay_fold st es
     \<and> replay_state
         (c\<lparr>read_all := (read_all c)
              (replay_log_path a file := Inr (filter is_state_changed es),
               cmd_log_path a := other)\<rparr>) a file
       = replay_state c a file
     \<and> replay_log_path a None \<noteq> cmd_log_path a"
  using assms
  by (simp add: replay_fold_filter replay_state_def replay_log_path_def cmd_log_path_def
      os_path_join_def)

theorem replay_reads_state_changed_only_witness:
  "replay_log_path (sample_args (Replay None None)) None
      \<noteq> cmd_log_path (sample_args (Replay None None))
   \<and> read_all (sample_log_collab sample_log)
        (replay_log_path (sample_args (Replay None None)) None) = Inr sample_log
   \<and> filter is_state_changed sample_log = scenario3_events
   \<and> replay_state
        ((sample_log_collab sample_log)
           \<lparr>read_all := (read_all (sample_log_collab sample_log))
              (replay_log_path (sample_args (Replay None None)) None :=
                 Inr (filter is_state_changed sample_log),
               cmd_log_path (sample_args (Replay None None)) := Inl CorruptLog)\<rparr>)
        (sample_args (Replay None None)) None
      = Inr \<lparr>components = [button_component, card_component], theme = ''dark''\<rparr>"
proof -
  have differ: "replay_log_path (sample_args (Replay None None)) None
      \<noteq> cmd_log_path (sample_args (Replay None None))"
    by (simp add: sample_paths)
  have log: "read_all (sample_log_collab sample_log)
        (replay_log_path (sample_args (Replay None None)) None) = Inr sample_log"
    by (simp add: sample_paths sample_log_collab_def sample_collab_def)
  have kept: "filter is_state_changed sample_log = scenario3_events"
    by (simp add: sample_log_def scenario3_events_def snapshot_event_def
        component_created_def theme_changed_def is_state_changed_def py_get_def
        py_get_default_def)
  have whole: "replay_state (sample_log_collab sample_log)
        (sample_args (Replay None None)) None
      = Inr \<lparr>components = [button_component, card_component], theme = ''dark''\<rparr>"
    unfolding replay_state_def log
    by (simp add: sample_log_replay sample_log_collab_def sample_collab_def)
  from replay_reads_state_changed_only[OF differ log, of _ "Inl CorruptLog"] whole
  have "replay_state
        ((sample_log_collab sample_log)
           \<lparr>read_all := (read_all (sample_log_collab sample_log))
              (replay_log_path (sample_args (Replay None None)) None :=
                 Inr (filter is_state_changed sample_log),
               cmd_log_path (sample_args (Replay None None)) := Inl CorruptLog)\<rparr>)
        (sample_args (Replay None None)) None
      = Inr \<lparr>components = [button_component, card_component], theme = ''dark''\<rparr>"
    by simp
  with differ log kept show ?thesis by blast
qed

text \<open>
  C9. A \<open>state.changed\<close> event of kind \<open>component.created\<close> whose \<open>data.component\<close> is
  not a JSON object (absent, a string, a number, a list) is skipped: the loop body returns
  the state as it was, and the replay of a sequence gives what it gives without the event.
\<close>

theorem replay_skips_non_object_component:
  assumes "is_state_changed e"
    and "map_of e ''data'' = Some (JDict d)"
    and "py_get d ''kind'' = JStr ''component.created''"
    and "\<not> is_dict (py_get d ''component'')"
  shows "replay_step st e = Inr st
     \<and> replay_fold st (es1 @ e # es2) = replay_fold st (es1 @ es2)"
proof -
  from assms(3) have "d \<noteq> []"
    by (auto simp add: py_get_def py_get_default_def)
  with assms have step: "replay_step st' e = Inr st'" for st'
    by (simp add: replay_step_def is_state_changed_def py_get_default_def py_or_def)
  then show ?thesis
    by (simp add: replay_fold_append split: sum.splits)
qed

theorem replay_skips_non_object_component_witness:
  "is_state_changed (component_created ''evt_4'' (JStr ''button''))
   \<and> map_of (component_created ''evt_4'' (JStr ''button'')) ''data''
       = Some (JDict [(''kind'', JStr ''component.created''), (''component'', JStr ''button'')])
   \<and> py_get [(''kind'', JStr ''component.created''), (''component'', JStr ''button'')] ''kind''
       = JStr ''component.created''
   \<and> \<not> is_dict (py_get [(''kind'', JStr ''component.created''),
                        (''component'', JStr ''button'')] ''component'')
   \<and> replay_step (KuhulState_init ''dark'') (component_created ''evt_4'' (JStr ''button''))
       = Inr (KuhulState_init ''dark'')
   \<and> replay_fold (KuhulState_init ''dark'')
        (scenario3_events @ component_created ''evt_4'' (JStr ''button'') # [])
       = replay_fold (KuhulState_init ''dark'') (scenario3_events @ [])"
proof -
  have h1: "is_state_changed (component_created ''evt_4'' (JStr ''button''))"
    by (simp add: component_created_def is_state_changed_def py_get_def py_get_default_def)
  have h2: "map_of (component_created ''evt_4'' (JStr ''button'')) ''data''
       = Some (JDict [(''kind'', JStr ''component.created''), (''component'', JStr ''button'')])"
    by (simp add: component_created_def)
  have h3: "py_get [(''kind'', JStr ''component.created''), (''component'', JStr ''button'')]
       ''kind'' = JStr ''component.created''"
    by (simp add: py_get_def py_get_default_def)
  have h4: "\<not> is_dict (py_get [(''kind'', JStr ''component.created''),
                        (''component'', JStr ''button'')] ''component'')"
    by (simp add: py_get_def py_get_default_def)
  from replay_skips_non_object_component[OF h1 h2 h3 h4,
      of "KuhulState_init ''dark''" scenario3_events "[]"] h1 h2 h3 h4
  show ?thesis by blast
qed

section \<open>Properties of the provider client\<close>

lemma providers_env:
  "map_of PROVIDERS p = Some config \<Longrightarrow> \<exists>v. api_key_env config = Some v \<and> v \<noteq> []"
  by (auto simp add: PROVIDERS_def split: if_splits)

lemma request_chat_missing_key:
  assumes "map_of PROVIDERS (provider ch) = Some config"
    and "api_key_env config = Some v" and "v \<noteq> []"
    and "api_key ch = None"
    and "env v = None \<or> env v = Some []"
  shows "request_chat env net ch =
     (0, Inl (ProviderError
        (''Missing API key. Set '' @ v @ '' or pass --api-key for '' @ provider ch @ ''.'')))"
  using assms by (auto simp add: request_chat_def Let_def)

text \<open>
  C10. For every supported provider (every entry of \<^verbatim>\<open>PROVIDERS\<close>, the local
  \<open>inference\<close> provider among them) there is an API-key environment variable with a
  non-empty name; when no \<^verbatim>\<open>api_key\<close> argument is given and that variable is unset or
  empty, \<^verbatim>\<open>request_chat\<close> raises a \<^verbatim>\<open>ProviderError\<close> whose message names the variable,
  and it has sent no request to the network.
\<close>

theorem missing_api_key_raises_before_request:
  assumes "map_of PROVIDERS (provider ch) = Some config" and "api_key ch = None"
  shows "\<exists>v. api_key_env config = Some v \<and> v \<noteq> []
     \<and> (env v = None \<or> env v = Some [] \<longrightarrow>
          request_chat env net ch =
            (0, Inl (ProviderError
               (''Missing API key. Set '' @ v @ '' or pass --api-key for ''
                  @ provider ch @ ''.''))))"
proof -
  from providers_env[OF assms(1)] obtain v where v: "api_key_env config = Some v" "v \<noteq> []"
    by blast
  with assms show ?thesis
    by (auto simp add: request_chat_missing_key)
qed

lemma inference_config:
  "map_of PROVIDERS ''inference'' =
     Some \<lparr>name = ''inference'', base_url = ''http://localhost:11434/v1'',
           api_key_env = Some ''INFERENCE_API_KEY'', kind = ''openai''\<rparr>"
  by (simp add: PROVIDERS_def)

theorem missing_api_key_raises_before_request_witness:
  "map_of PROVIDERS (provider (sample_chat None)) =
     Some \<lparr>name = ''inference'', base_url = ''http://localhost:11434/v1'',
           api_key_env = Some ''INFERENCE_API_KEY'', kind = ''openai''\<rparr>
   \<and> api_key (sample_chat None) = None
   \<and> getenv sample_collab ''INFERENCE_API_KEY'' = None
   \<and> request_chat (getenv sample_collab) (urlopen sample_collab) (sample_chat None) =
       (0, Inl (ProviderError
          ''Missing API key. Set INFERENCE_API_KEY or pass --api-key for inference.''))"
proof -
  have p: "map_of PROVIDERS (provider (sample_chat None)) =
     Some \<lparr>name = ''inference'', base_url = ''http://localhost:11434/v1'',
           api_key_env = Some ''INFERENCE_API_KEY'', kind = ''openai''\<rparr>"
    by (simp add: sample_chat_def inference_config)
  have k: "api_key (sample_chat None) = None"
    by (simp add: sample_chat_def)
  have e: "getenv sample_collab ''INFERENCE_API_KEY'' = None"
    by (simp add: sample_collab_def)
  from missing_api_key_raises_before_request[OF p k, of "getenv sample_collab"
      "urlopen sample_collab"] e
  have "request_chat (getenv sample_collab) (urlopen sample_collab) (sample_chat None) =
       (0, Inl (ProviderError
          (''Missing API key. Set '' @ ''INFERENCE_API_KEY'' @ '' or pass --api-key for ''
                  @ provider (sample_chat None) @ ''.'')))"
    by auto
  then have "request_chat (getenv sample_collab) (urlopen sample_collab) (sample_chat None) =
       (0, Inl (ProviderError
          ''Missing API key. Set INFERENCE_API_KEY or pass --api-key for inference.''))"
    by (simp add: sample_chat_def)
  with p k e show ?thesis by blast
qed

text \<open>What \<^verbatim>\<open>_post_json\<close> catches and what it lets through: an HTTP error, a connection
  error and a body that is not JSON come out as a \<^verbatim>\<open>ProviderError\<close>; a URL without a
  scheme, a body that is not UTF-8 and an exception of another class come out as they
  are.\<close>

lemma post_json_caught:
  "net \<lparr>url = u, payload = p, headers = h\<rparr> = HTTPError code detail \<Longrightarrow>
     post_json net u p h =
       (1, Inl (ProviderError (''HTTP '' @ str_of_int code @ '': '' @ detail)))"
  "net \<lparr>url = u, payload = p, headers = h\<rparr> = URLError reason \<Longrightarrow>
     post_json net u p h = (1, Inl (ProviderError (''Connection error: '' @ reason)))"
  "net \<lparr>url = u, payload = p, headers = h\<rparr> = InvalidJson \<Longrightarrow>
     post_json net u p h = (1, Inl (ProviderError ''Invalid JSON response''))"
  by (simp_all add: post_json_def)

lemma post_json_not_caught:
  "net \<lparr>url = u, payload = p, headers = h\<rparr> = UnknownUrlType \<Longrightarrow>
     post_json net u p h = (0, Inl ValueError)"
  "net \<lparr>url = u, payload = p, headers = h\<rparr> = NotUtf8 \<Longrightarrow>
     post_json net u p h = (1, Inl UnicodeDecodeError)"
  "net \<lparr>url = u, payload = p, headers = h\<rparr> = Uncaught cls \<Longrightarrow>
     post_json net u p h = (1, Inl (OtherException cls))"
  by (simp_all add: post_json_def)

lemma request_chat_unknown_url_type:
  "request_chat (\<lambda>v. None) (\<lambda>r. UnknownUrlType)
      ((sample_chat (Some ''k''))\<lparr>chat_args.base_url := Some ''localhost''\<rparr>)
     = (0, Inl ValueError)"
  by (simp add: request_chat_def sample_chat_def PROVIDERS_def rstrip_slash_def
      request_openai_compatible_def post_json_def Let_def)

lemma rstrip_inference: "rstrip_slash ''http://localhost:11434/v1'' = ''http://localhost:11434/v1''"
  by (simp add: rstrip_slash_def)

text \<open>
  C6, at two failing inputs. The provider is \<open>inference\<close> with an API key. When the
  server answers \<^verbatim>\<open>{"choices": ["x"]}\<close>, \<^verbatim>\<open>first.get("message")\<close> is called on a
  string and \<^verbatim>\<open>request_chat\<close> ends with AttributeError, which is no
  \<^verbatim>\<open>ProviderError\<close>. When the server answers
  \<^verbatim>\<open>{"choices": [{"message": {"content": 5}}]}\<close>, \<^verbatim>\<open>request_chat\<close> returns the number 5
  as the content, which is no string.
\<close>

theorem request_chat_lets_other_failures_escape:
  "request_chat (\<lambda>v. None) (\<lambda>r. Replied (JDict [(''choices'', JList [JStr ''x''])]))
      (sample_chat (Some ''k'')) = (1, Inl AttributeError)
   \<and> request_chat (\<lambda>v. None)
        (\<lambda>r. Replied (JDict [(''choices'',
                JList [JDict [(''message'', JDict [(''content'', JInt 5)])]])]))
      (sample_chat (Some ''k''))
      = (1, Inr (JInt 5,
               [(''request_url'', JStr ''http://localhost:11434/v1/chat/completions'')]))"
  by (simp add: request_chat_def sample_chat_def inference_config rstrip_inference
      request_openai_compatible_def post_json_def openai_content_def py_or_def py_get_def
      py_get_default_def Let_def)

section \<open>Properties of the command line program\<close>

lemma log_appends_append: "log_appends (xs @ ys) = log_appends xs @ log_appends ys"
  by (induction xs rule: log_appends.induct) simp_all


lemma log_appends_posts: "log_appends (replicate n HttpPost) = []"
  by (induction n) simp_all










subsection \<open>The commands log\<close>

lemma log_appends_run_command:
  "log_appends (fst (run_command c a command svg)) = [(cmd_log_path a, command)]"
  by (simp add: run_command_def split: sum.splits)

lemma log_appends_main_chat:
  "log_appends (fst (main_chat c a ch)) = [(cmd_log_path a, chat_command c a ch)]"
  by (cases "request_chat (getenv c) (urlopen c) ch")
     (simp add: main_chat_def Let_def log_appends_append log_appends_posts
       split: sum.splits error.splits)

lemma log_appends_main_replay: "log_appends (fst (main_replay c a file svg)) = []"
  by (simp add: main_replay_def Let_def split: sum.splits)

lemma main_unfold:
  "main c a =
     (EnsureDir (out a) #
        fst (case cmd a of
               Create component label \<Rightarrow> main_create c a component label
             | Theme nm \<Rightarrow> main_theme c a nm
             | ExportSvg file \<Rightarrow> main_export_svg c a file
             | Replay file svg \<Rightarrow> main_replay c a file svg
             | Chat ch \<Rightarrow> main_chat c a ch),
      snd (case cmd a of
               Create component label \<Rightarrow> main_create c a component label
             | Theme nm \<Rightarrow> main_theme c a nm
             | ExportSvg file \<Rightarrow> main_export_svg c a file
             | Replay file svg \<Rightarrow> main_replay c a file svg
             | Chat ch \<Rightarrow> main_chat c a ch))"
  by (simp add: main_def case_prod_beta)

lemma log_appends_main:
  "log_appends (fst (main c a)) = [] \<or>
   (\<exists>op args. log_appends (fst (main c a)) =
      [(cmd_log_path a,
        make_cmd (next_id c) (now_ms c 0) (session a) op args ''cli'' ''local'')])"
proof (cases "cmd a")
  case (Create component label)
  then have "log_appends (fst (main c a)) =
      [(cmd_log_path a,
        make_cmd (next_id c) (now_ms c 0) (session a) ''ui.create''
          [(''component'', JStr component),
           (''props'', JDict (case label of
                                None \<Rightarrow> []
                              | Some t \<Rightarrow>
                                  [(if component \<noteq> ''card'' then ''text'' else ''label'',
                                    JStr t)]))]
          ''cli'' ''local'')]"
    by (simp add: main_unfold main_create_def Let_def log_appends_run_command)
  then show ?thesis by blast
next
  case (Theme nm)
  then have "log_appends (fst (main c a)) =
      [(cmd_log_path a,
        make_cmd (next_id c) (now_ms c 0) (session a) ''ui.theme.apply''
          [(''name'', JStr nm)] ''cli'' ''local'')]"
    by (simp add: main_unfold main_theme_def Let_def log_appends_run_command)
  then show ?thesis by blast
next
  case (ExportSvg target)
  then have "log_appends (fst (main c a)) =
      [(cmd_log_path a,
        make_cmd (next_id c) (now_ms c 0) (session a) ''svg.export''
          [(''hint'', JStr (os_path_basename
              (str_or target (os_path_join (out a) (session a @ ''.svg'')))))]
          ''cli'' ''local'')]"
    by (simp add: main_unfold main_export_svg_def Let_def log_appends_run_command)
  then show ?thesis by blast
next
  case (Replay source target)
  then have "log_appends (fst (main c a)) = []"
    by (simp add: main_unfold log_appends_main_replay)
  then show ?thesis by simp
next
  case (Chat ch)
  then have "log_appends (fst (main c a)) = [(cmd_log_path a, chat_command c a ch)]"
    by (simp add: main_unfold log_appends_main_chat)
  then have "\<exists>args. log_appends (fst (main c a)) =
      [(cmd_log_path a,
        make_cmd (next_id c) (now_ms c 0) (session a) ''ai.chat'' args ''cli'' ''local'')]"
    unfolding chat_command_def by blast
  then show ?thesis by blast
qed

text \<open>
  C7, amended. Every record that \<^verbatim>\<open>main\<close> appends to a log goes to the commands log of
  the session, is the only one of the run, and consists of exactly the seven fields
  \<open>@type\<close> (\<open>kuhul.command\<close>), \<open>@v\<close> (\<open>1.0.0\<close>), \<open>id\<close> (the identifier the generator
  gave for the kind \<open>cmd\<close> and the timestamp), \<open>ts_ms\<close> (the reading of the clock in
  milliseconds), \<open>source\<close> (\<open>{kind, who, session}\<close>), \<open>op\<close> (a string) and \<open>args\<close>
  (a mapping), in this order.
\<close>

theorem command_record_shape:
  assumes "(p, r) \<in> set (log_appends (fst (main c a)))"
  shows "p = cmd_log_path a
     \<and> log_appends (fst (main c a)) = [(p, r)]
     \<and> map fst r = [''@type'', ''@v'', ''id'', ''ts_ms'', ''source'', ''op'', ''args'']
     \<and> py_get r ''@type'' = JStr ''kuhul.command''
     \<and> py_get r ''@v'' = JStr ''1.0.0''
     \<and> py_get r ''id'' = JStr (next_id c ''cmd'' (now_ms c 0))
     \<and> py_get r ''ts_ms'' = JInt (now_ms c 0)
     \<and> py_get r ''source'' =
         JDict [(''kind'', JStr ''cli''), (''who'', JStr ''local''),
                (''session'', JStr (session a))]
     \<and> (\<exists>op. py_get r ''op'' = JStr op)
     \<and> is_dict (py_get r ''args'')"
proof -
  from assms log_appends_main[of c a] obtain op args where
    "log_appends (fst (main c a)) =
      [(cmd_log_path a,
        make_cmd (next_id c) (now_ms c 0) (session a) op args ''cli'' ''local'')]"
    by auto
  with assms show ?thesis
    by (simp add: make_cmd_def V_def py_get_def py_get_default_def)
qed


lemma sample_theme_log:
  "log_appends (fst (main sample_collab (sample_args (Theme ''dark'')))) =
     [(''output/sess_local.commands.jsonl'',
       [(''@type'', JStr ''kuhul.command''), (''@v'', JStr ''1.0.0''),
        (''id'', JStr ''cmd_1''), (''ts_ms'', JInt 1700000000000),
        (''source'', JDict [(''kind'', JStr ''cli''), (''who'', JStr ''local''),
                            (''session'', JStr ''sess_local'')]),
        (''op'', JStr ''ui.theme.apply''),
        (''args'', JDict [(''name'', JStr ''dark'')])])]"
  by (simp add: main_unfold main_theme_def Let_def log_appends_run_command sample_args_def
      cmd_log_path_def os_path_join_def make_cmd_def V_def sample_collab_def)

text \<open>
  C7, as stated, at a concrete input. The run \<^verbatim>\<open>theme dark\<close> appends one record to the
  commands log; it has the fields \<open>@type\<close> and \<open>@v\<close>, which are not among \<open>id\<close>,
  \<open>ts_ms\<close>, \<open>source\<close>, \<open>op\<close> and \<open>args\<close>.
\<close>

theorem command_record_five_fields_counterexample:
  "log_appends (fst (main sample_collab (sample_args (Theme ''dark'')))) =
     [(''output/sess_local.commands.jsonl'',
       [(''@type'', JStr ''kuhul.command''), (''@v'', JStr ''1.0.0''),
        (''id'', JStr ''cmd_1''), (''ts_ms'', JInt 1700000000000),
        (''source'', JDict [(''kind'', JStr ''cli''), (''who'', JStr ''local''),
                            (''session'', JStr ''sess_local'')]),
        (''op'', JStr ''ui.theme.apply''),
        (''args'', JDict [(''name'', JStr ''dark'')])])]
   \<and> ''@type'' \<notin> set [''id'', ''ts_ms'', ''source'', ''op'', ''args'']
   \<and> ''@v'' \<notin> set [''id'', ''ts_ms'', ''source'', ''op'', ''args'']"
  by (simp add: sample_theme_log)

theorem command_record_shape_witness:
  "(''output/sess_local.commands.jsonl'',
       [(''@type'', JStr ''kuhul.command''), (''@v'', JStr ''1.0.0''),
        (''id'', JStr ''cmd_1''), (''ts_ms'', JInt 1700000000000),
        (''source'', JDict [(''kind'', JStr ''cli''), (''who'', JStr ''local''),
                            (''session'', JStr ''sess_local'')]),
        (''op'', JStr ''ui.theme.apply''),
        (''args'', JDict [(''name'', JStr ''dark'')])])
     \<in> set (log_appends (fst (main sample_collab (sample_args (Theme ''dark'')))))
   \<and> ''output/sess_local.commands.jsonl'' = cmd_log_path (sample_args (Theme ''dark''))
   \<and> JStr ''cmd_1'' = JStr (next_id sample_collab ''cmd'' (now_ms sample_collab 0))"
proof -
  have m: "(''output/sess_local.commands.jsonl'',
       [(''@type'', JStr ''kuhul.command''), (''@v'', JStr ''1.0.0''),
        (''id'', JStr ''cmd_1''), (''ts_ms'', JInt 1700000000000),
        (''source'', JDict [(''kind'', JStr ''cli''), (''who'', JStr ''local''),
                            (''session'', JStr ''sess_local'')]),
        (''op'', JStr ''ui.theme.apply''),
        (''args'', JDict [(''name'', JStr ''dark'')])])
     \<in> set (log_appends (fst (main sample_collab (sample_args (Theme ''dark'')))))"
    by (simp add: sample_theme_log)
  from command_record_shape[OF m] have
    "''output/sess_local.commands.jsonl'' = cmd_log_path (sample_args (Theme ''dark''))"
    and "py_get [(''@type'', JStr ''kuhul.command''), (''@v'', JStr ''1.0.0''),
        (''id'', JStr ''cmd_1''), (''ts_ms'', JInt 1700000000000),
        (''source'', JDict [(''kind'', JStr ''cli''), (''who'', JStr ''local''),
                            (''session'', JStr ''sess_local'')]),
        (''op'', JStr ''ui.theme.apply''),
        (''args'', JDict [(''name'', JStr ''dark'')])] ''id''
      = JStr (next_id sample_collab ''cmd'' (now_ms sample_collab 0))"
    by blast+
  then have "''output/sess_local.commands.jsonl'' = cmd_log_path (sample_args (Theme ''dark''))"
    and "JStr ''cmd_1'' = JStr (next_id sample_collab ''cmd'' (now_ms sample_collab 0))"
    by (simp_all add: py_get_def py_get_default_def)
  with m show ?thesis by blast
qed

section \<open>Properties of the command engine\<close>

lemma emit_extends_log:
  "eng_log (spec_emit_event gen eng ts cb topic d) =
     eng_log eng @ [[(''id'', JStr (gen (eng_ids eng) ''evt'' ts)), (''ts_ms'', JInt ts),
                     (''caused_by'', cb), (''topic'', JStr topic), (''data'', JDict d)]]"
  "eng_state (spec_emit_event gen eng ts cb topic d) = eng_state eng"
  by (simp_all add: spec_emit_event_def)

lemma replay_step_created:
  "replay_step st [(''id'', i), (''ts_ms'', t), (''caused_by'', cb),
                   (''topic'', JStr ''state.changed''),
                   (''data'', JDict [(''kind'', JStr ''component.created''),
                                     (''component'', JDict r)])]
     = Inr (st\<lparr>components := components st @ [JDict r]\<rparr>)"
  by (simp add: replay_step_def py_get_def py_get_default_def py_or_def)

lemma replay_step_themed:
  "n \<in> set themes \<Longrightarrow>
   replay_step st [(''id'', i), (''ts_ms'', t), (''caused_by'', cb),
                   (''topic'', JStr ''state.changed''),
                   (''data'', JDict [(''kind'', JStr ''theme.changed''), (''to'', JStr n)])]
     = Inr (st\<lparr>theme := n\<rparr>)"
  by (auto simp add: replay_step_def py_get_def py_get_default_def py_or_def themes_def)

lemma replay_step_hint:
  "replay_step st [(''id'', i), (''ts_ms'', t), (''caused_by'', cb), (''topic'', JStr topic),
                   (''data'', JDict [(''hint'', h)])]
     = Inr st"
  by (simp add: replay_step_def py_get_def py_get_default_def py_or_def)

lemma apply_unrecognized:
  assumes "\<forall>s\<in>set recognized_ops. py_get command ''op'' \<noteq> JStr s"
  shows "spec_apply_command gen ts et eng command = (Some UnrecognizedOperation, eng)"
  using assms by (simp add: spec_apply_command_def recognized_ops_def Let_def)

lemma apply_outcomes:
  "spec_apply_command gen ts et eng command = (Some UnrecognizedOperation, eng)
   \<or> spec_apply_command gen ts et eng command = (Some InvalidArgument, eng)
   \<or> spec_apply_command gen ts et eng command = (None, eng)
   \<or> (\<exists>eng' ev. spec_apply_command gen ts et eng command = (None, eng')
         \<and> eng_log eng' = eng_log eng @ [ev]
         \<and> replay_step (eng_state eng) ev = Inr (eng_state eng'))"
proof -
  let ?op = "py_get command ''op''"
  let ?args = "(case py_get command ''args'' of JDict d \<Rightarrow> d | _ \<Rightarrow> [])"
  consider (create) "?op = JStr ''ui.create''" | (theme) "?op = JStr ''ui.theme.apply''"
    | (export) "?op = JStr ''svg.export''" | (chat) "?op = JStr ''ai.chat''"
    | (other) "?op \<noteq> JStr ''ui.create''" "?op \<noteq> JStr ''ui.theme.apply''"
        "?op \<noteq> JStr ''svg.export''" "?op \<noteq> JStr ''ai.chat''"
    by blast
  then show ?thesis
  proof cases
    case create
    show ?thesis
    proof (cases "\<exists>t. py_get ?args ''component'' = JStr t \<and> t \<in> set component_types")
      case True
      then obtain t where t: "py_get ?args ''component'' = JStr t" "t \<in> set component_types"
        by blast
      with create show ?thesis
        by (simp add: spec_apply_command_def Let_def emit_extends_log replay_step_created)
    next
      case False
      with create have "spec_apply_command gen ts et eng command = (Some InvalidArgument, eng)"
        by (cases "py_get ?args ''component''") (simp_all add: spec_apply_command_def Let_def)
      then show ?thesis by simp
    qed
  next
    case theme
    show ?thesis
    proof (cases "\<exists>n. py_get ?args ''name'' = JStr n \<and> n \<in> set themes")
      case True
      then obtain n where n: "py_get ?args ''name'' = JStr n" "n \<in> set themes"
        by blast
      with theme show ?thesis
        by (simp add: spec_apply_command_def Let_def emit_extends_log replay_step_themed)
    next
      case False
      with theme have "spec_apply_command gen ts et eng command = (Some InvalidArgument, eng)"
        by (cases "py_get ?args ''name''") (simp_all add: spec_apply_command_def Let_def)
      then show ?thesis by simp
    qed
  next
    case export
    then show ?thesis
      by (simp add: spec_apply_command_def Let_def emit_extends_log replay_step_hint)
  next
    case chat
    then show ?thesis
      by (simp add: spec_apply_command_def Let_def)
  next
    case other
    then show ?thesis
      by (simp add: spec_apply_command_def Let_def)
  qed
qed

text \<open>
  C8. Applying a command whose \<open>op\<close> is not a recognized operation fails with the
  Unrecognized-Operation error and gives back the engine as it was: the same state, the
  same event log. Every application that fails gives back the engine as it was. An
  application that succeeds either changes nothing, or appends exactly one event to the
  log, and replaying this event on the state before gives the state after: mutation and
  event come together.
\<close>

theorem unrecognized_op_changes_nothing:
  "((\<forall>s\<in>set recognized_ops. py_get command ''op'' \<noteq> JStr s) \<longrightarrow>
       spec_apply_command gen ts et eng command = (Some UnrecognizedOperation, eng))
   \<and> (fst (spec_apply_command gen ts et eng command) \<noteq> None \<longrightarrow>
       snd (spec_apply_command gen ts et eng command) = eng)
   \<and> (fst (spec_apply_command gen ts et eng command) = None \<longrightarrow>
       snd (spec_apply_command gen ts et eng command) = eng
       \<or> (\<exists>ev. eng_log (snd (spec_apply_command gen ts et eng command)) = eng_log eng @ [ev]
             \<and> replay_step (eng_state eng) ev =
                 Inr (eng_state (snd (spec_apply_command gen ts et eng command)))))"
  using apply_outcomes[of gen ts et eng command] apply_unrecognized[of command gen ts et eng]
  by auto

theorem unrecognized_op_changes_nothing_witness:
  "py_get (sample_command ''ui.delete'' []) ''op'' = JStr ''ui.delete''
   \<and> ''ui.delete'' \<notin> set recognized_ops
   \<and> spec_apply_command sample_gen 5 ''svg.export.requested'' sample_engine
        (sample_command ''ui.delete'' []) = (Some UnrecognizedOperation, sample_engine)
   \<and> fst (spec_apply_command sample_gen 5 ''svg.export.requested'' sample_engine
        (sample_command ''ui.theme.apply'' [(''name'', JStr ''light'')])) = None
   \<and> snd (spec_apply_command sample_gen 5 ''svg.export.requested'' sample_engine
        (sample_command ''ui.theme.apply'' [(''name'', JStr ''light'')])) \<noteq> sample_engine
   \<and> (\<exists>ev. eng_log (snd (spec_apply_command sample_gen 5 ''svg.export.requested''
          sample_engine (sample_command ''ui.theme.apply'' [(''name'', JStr ''light'')])))
          = eng_log sample_engine @ [ev]
        \<and> replay_step (eng_state sample_engine) ev =
            Inr (eng_state (snd (spec_apply_command sample_gen 5 ''svg.export.requested''
              sample_engine (sample_command ''ui.theme.apply'' [(''name'', JStr ''light'')])))))"
proof -
  let ?bad = "sample_command ''ui.delete'' []"
  let ?good = "sample_command ''ui.theme.apply'' [(''name'', JStr ''light'')]"
  note th = unrecognized_op_changes_nothing[of _ sample_gen 5 "''svg.export.requested''"
      sample_engine]
  have h: "\<forall>s\<in>set recognized_ops. py_get ?bad ''op'' \<noteq> JStr s"
    by (simp add: recognized_ops_def sample_command_def make_cmd_def py_get_def
        py_get_default_def)
  from th[of ?bad] h have bad: "spec_apply_command sample_gen 5 ''svg.export.requested''
      sample_engine ?bad = (Some UnrecognizedOperation, sample_engine)"
    by blast
  have ok: "fst (spec_apply_command sample_gen 5 ''svg.export.requested'' sample_engine ?good)
      = None"
    by (simp add: spec_apply_command_def sample_command_def make_cmd_def py_get_def
        py_get_default_def themes_def Let_def)
  have changed: "theme (eng_state (snd (spec_apply_command sample_gen 5
      ''svg.export.requested'' sample_engine ?good))) = ''light''"
    by (simp add: spec_apply_command_def sample_command_def make_cmd_def py_get_def
        py_get_default_def themes_def Let_def spec_emit_event_def)
  have "theme (eng_state sample_engine) = ''dark''"
    by (simp add: sample_engine_def KuhulState_init_def)
  with changed have ne: "snd (spec_apply_command sample_gen 5 ''svg.export.requested''
      sample_engine ?good) \<noteq> sample_engine"
    by auto
  from th[of ?good] ok ne have "\<exists>ev. eng_log (snd (spec_apply_command sample_gen 5
          ''svg.export.requested'' sample_engine ?good)) = eng_log sample_engine @ [ev]
        \<and> replay_step (eng_state sample_engine) ev =
            Inr (eng_state (snd (spec_apply_command sample_gen 5 ''svg.export.requested''
              sample_engine ?good)))"
    by blast
  moreover have "py_get ?bad ''op'' = JStr ''ui.delete''"
    and "''ui.delete'' \<notin> set recognized_ops"
    by (simp_all add: recognized_ops_def sample_command_def make_cmd_def py_get_def
        py_get_default_def)
  ultimately show ?thesis using bad ok ne by blast
qed

end
